theory Spec2Isabelle
  imports Complex_Main "HOL-Library.Sublist" "HOL-Library.List_Lexorder" "HOL-Library.Char_ord"
begin

section \<open>Python values\<close>

text \<open>
  The vacancy statistics program (\<^verbatim>\<open>code_Fail.py\<close>) works on dictionaries read from a CSV
  file. A dictionary value is a string (every CSV field), or an integer (the derived
  \<^verbatim>\<open>year\<close>, and the doctests' salary bounds). Python's \<^verbatim>\<open>bool\<close> is a subclass of
  \<^verbatim>\<open>int\<close> with \<^verbatim>\<open>True == 1\<close>, also as a dictionary key, so the flag \<^verbatim>\<open>is_needed\<close> is
  stored as \<open>PyInt 1\<close> or \<open>PyInt 0\<close>.

  A character of a \<open>string\<close> stands for one code point below 256.

  Python floats are modelled by the real number they stand for: the rounding and the
  finite range of double arithmetic are not modelled. Infinities and NaN, which
  \<^verbatim>\<open>float\<close> can return from a string, are kept as values of their own.
\<close>

datatype pyval = PyStr string | PyInt int

datatype pyfloat = Finite real | PosInf | NegInf | NaN

datatype error = KeyError | ValueError | OverflowError | TypeError | StopIteration | ZeroDivisionError

definition py_bool :: "bool \<Rightarrow> pyval" where
  "py_bool b = PyInt (if b then 1 else 0)"

fun truthy :: "pyval \<Rightarrow> bool" where
  "truthy (PyInt n) = (n \<noteq> 0)"
| "truthy (PyStr s) = (s \<noteq> [])"

section \<open>Built-in conversions\<close>

text \<open>
  \<^verbatim>\<open>int(s)\<close> and \<^verbatim>\<open>float(s)\<close> on a string: surrounding whitespace is stripped, a sign
  may lead, and a single underscore may stand between two digits.
\<close>

definition py_isspace :: "char \<Rightarrow> bool" where
  "py_isspace c = (c \<in> set [CHR 0x09, CHR 0x0A, CHR 0x0B, CHR 0x0C, CHR 0x0D,
                            CHR 0x1C, CHR 0x1D, CHR 0x1E, CHR 0x1F, CHR 0x20,
                            CHR 0x85, CHR 0xA0])"

definition py_strip :: "string \<Rightarrow> string" where
  "py_strip s = rev (dropWhile py_isspace (rev (dropWhile py_isspace s)))"

definition digit_val :: "char \<Rightarrow> nat option" where
  "digit_val c = map_of (zip ''0123456789'' [0, 1, 2, 3, 4, 5, 6, 7, 8, 9]) c"

definition is_digit :: "char \<Rightarrow> bool" where
  "is_digit c = (digit_val c \<noteq> None)"

text \<open>The value of a string of decimal digits, most significant digit first.\<close>

definition dec_value :: "string \<Rightarrow> nat" where
  "dec_value ds = foldl (\<lambda>n c. 10 * n + the (digit_val c)) 0 ds"

text \<open>
  An integer literal's digits: non-empty, each underscore between two digits. The result
  is the digits without the underscores.
\<close>

fun digits_us :: "string \<Rightarrow> string option" where
  "digits_us [] = None"
| "digits_us [c] = (if is_digit c then Some [c] else None)"
| "digits_us (c # u # rest) =
     (if \<not> is_digit c then None
      else if u = CHR ''_'' then map_option (Cons c) (digits_us rest)
      else map_option (Cons c) (digits_us (u # rest)))"

definition unsigned_int :: "string \<Rightarrow> error + nat" where
  "unsigned_int t = (case digits_us t of None \<Rightarrow> Inl ValueError | Some ds \<Rightarrow> Inr (dec_value ds))"

definition py_int :: "string \<Rightarrow> error + int" where
  "py_int s =
     (case py_strip s of
        [] \<Rightarrow> Inl ValueError
      | c # r \<Rightarrow>
          if c = CHR ''-'' then map_sum id (\<lambda>n. - int n) (unsigned_int r)
          else if c = CHR ''+'' then map_sum id int (unsigned_int r)
          else map_sum id int (unsigned_int (c # r)))"

text \<open>
  \<^verbatim>\<open>float(s)\<close>: underscores are checked and removed first (each between two digits), then
  the stripped text is a decimal literal or one of \<^verbatim>\<open>inf\<close>, \<^verbatim>\<open>infinity\<close>, \<^verbatim>\<open>nan\<close> in any
  letter case, after an optional sign.
\<close>

fun drop_underscores :: "char option \<Rightarrow> string \<Rightarrow> string option" where
  "drop_underscores prev [] = (if prev = Some (CHR ''_'') then None else Some [])"
| "drop_underscores prev (c # cs) =
     (if c = CHR ''_'' then
        (case prev of
           None \<Rightarrow> None
         | Some p \<Rightarrow> if is_digit p then drop_underscores (Some c) cs else None)
      else if prev = Some (CHR ''_'') \<and> \<not> is_digit c then None
      else map_option (Cons c) (drop_underscores (Some c) cs))"

definition lower :: "char \<Rightarrow> char" where
  "lower c = (case List.find (\<lambda>p. fst p = c) (zip ''ABCDEFGHIJKLMNOPQRSTUVWXYZ'' ''abcdefghijklmnopqrstuvwxyz'')
              of None \<Rightarrow> c | Some p \<Rightarrow> snd p)"

definition mantissa_exp :: "string \<Rightarrow> (string \<times> string \<times> int) option" where
  "mantissa_exp t =
     (let ip = takeWhile is_digit t; r1 = dropWhile is_digit t;
          fp = (case r1 of c # r \<Rightarrow> if c = CHR ''.'' then takeWhile is_digit r else [] | [] \<Rightarrow> []);
          r2 = (case r1 of c # r \<Rightarrow> if c = CHR ''.'' then dropWhile is_digit r else r1 | [] \<Rightarrow> [])
      in if ip = [] \<and> fp = [] then None
         else case r2 of
            [] \<Rightarrow> Some (ip, fp, 0)
          | e # r3 \<Rightarrow>
              if e \<noteq> CHR ''e'' \<and> e \<noteq> CHR ''E'' then None
              else (case r3 of
                      [] \<Rightarrow> None
                    | sg # ds \<Rightarrow>
                        if sg = CHR ''-'' then
                          (if ds \<noteq> [] \<and> list_all is_digit ds then Some (ip, fp, - int (dec_value ds)) else None)
                        else if sg = CHR ''+'' then
                          (if ds \<noteq> [] \<and> list_all is_digit ds then Some (ip, fp, int (dec_value ds)) else None)
                        else
                          (if list_all is_digit r3 then Some (ip, fp, int (dec_value r3)) else None)))"

definition decimal_value :: "string \<times> string \<times> int \<Rightarrow> real" where
  "decimal_value m =
     (case m of (ip, fp, ex) \<Rightarrow>
        let x = real (dec_value (ip @ fp)) / 10 ^ length fp
        in if 0 \<le> ex then x * 10 ^ nat ex else x / 10 ^ nat (- ex))"

definition unsigned_float :: "string \<Rightarrow> pyfloat option" where
  "unsigned_float t =
     (case mantissa_exp t of
        Some m \<Rightarrow> Some (Finite (decimal_value m))
      | None \<Rightarrow>
          let w = map lower t
          in if w = ''inf'' \<or> w = ''infinity'' then Some PosInf
             else if w = ''nan'' then Some NaN
             else None)"

fun negate :: "pyfloat \<Rightarrow> pyfloat" where
  "negate (Finite x) = Finite (- x)"
| "negate PosInf = NegInf"
| "negate NegInf = PosInf"
| "negate NaN = NaN"

definition float_of_string :: "string \<Rightarrow> error + pyfloat" where
  "float_of_string s =
     (case drop_underscores None s of
        None \<Rightarrow> Inl ValueError
      | Some u \<Rightarrow>
          (case py_strip u of
             [] \<Rightarrow> Inl ValueError
           | c # r \<Rightarrow>
               if c = CHR ''-'' then
                 (case unsigned_float r of None \<Rightarrow> Inl ValueError | Some x \<Rightarrow> Inr (negate x))
               else if c = CHR ''+'' then
                 (case unsigned_float r of None \<Rightarrow> Inl ValueError | Some x \<Rightarrow> Inr x)
               else
                 (case unsigned_float (c # r) of None \<Rightarrow> Inl ValueError | Some x \<Rightarrow> Inr x)))"

fun py_float :: "pyval \<Rightarrow> error + pyfloat" where
  "py_float (PyInt n) = Inr (Finite (real_of_int n))"
| "py_float (PyStr s) = float_of_string s"

fun math_floor :: "pyfloat \<Rightarrow> error + int" where
  "math_floor (Finite x) = Inr \<lfloor>x\<rfloor>"
| "math_floor NaN = Inl ValueError"
| "math_floor PosInf = Inl OverflowError"
| "math_floor NegInf = Inl OverflowError"

section \<open>The currency table\<close>

text \<open>The module constant \<^verbatim>\<open>currency_to_rub\<close>, a dictionary with ten string keys.\<close>

definition currency_to_rub :: "string \<rightharpoonup> real" where
  "currency_to_rub = map_of
     [(''AZN'', 35), (''BYR'', 2391 / 100), (''EUR'', 5990 / 100), (''GEL'', 2174 / 100),
      (''KGS'', 76 / 100), (''KZT'', 13 / 100), (''RUR'', 1), (''UAH'', 164 / 100),
      (''USD'', 6066 / 100), (''UZS'', 55 / 10000)]"

section \<open>Salary and Vacancy\<close>

text \<open>A raw row is a dictionary from column names to values; the order of its keys is never used.\<close>

type_synonym row = "string \<rightharpoonup> pyval"

record Salary =
  salary_from :: int
  salary_to :: int
  salary_currency :: pyval
  averageSalary :: real
  salaryRub :: real

record Vacancy =
  dic :: row
  salary :: Salary
  is_needed :: pyval

text \<open>
  \<^verbatim>\<open>math.floor(float(dic[key]))\<close>: the key may be missing, the text may not be a number,
  and infinities and NaN have no floor.
\<close>

definition floor_field :: "row \<Rightarrow> string \<Rightarrow> error + int" where
  "floor_field d key =
     (case d key of
        None \<Rightarrow> Inl KeyError
      | Some x \<Rightarrow> (case py_float x of Inl e \<Rightarrow> Inl e | Inr f \<Rightarrow> math_floor f))"

text \<open>\<^verbatim>\<open>currency_to_rub[c]\<close>: the table has string keys only, any other key is missing.\<close>

fun rate_of :: "pyval \<Rightarrow> error + real" where
  "rate_of (PyStr c) = (case currency_to_rub c of None \<Rightarrow> Inl KeyError | Some r \<Rightarrow> Inr r)"
| "rate_of (PyInt n) = Inl KeyError"

text \<open>\<^verbatim>\<open>Salary.__init__\<close>, statement by statement; the first failing statement ends it.\<close>

definition Salary_init :: "row \<Rightarrow> error + Salary" where
  "Salary_init d =
     (case floor_field d ''salary_from'' of Inl e \<Rightarrow> Inl e | Inr sf \<Rightarrow>
      case floor_field d ''salary_to'' of Inl e \<Rightarrow> Inl e | Inr st \<Rightarrow>
      case d ''salary_currency'' of None \<Rightarrow> Inl KeyError | Some cur \<Rightarrow>
      let avg = (real_of_int st + real_of_int sf) / 2 in
      case rate_of cur of Inl e \<Rightarrow> Inl e | Inr r \<Rightarrow>
        Inr \<lparr>salary_from = sf, salary_to = st, salary_currency = cur,
              averageSalary = avg, salaryRub = r * avg\<rparr>)"

text \<open>\<^verbatim>\<open>dic["published_at"][:4]\<close>: a slice of a string never fails, an integer has no slice.\<close>

fun published_prefix :: "pyval \<Rightarrow> error + string" where
  "published_prefix (PyStr s) = Inr (take 4 s)"
| "published_prefix (PyInt n) = Inl TypeError"

text \<open>\<^verbatim>\<open>Vacancy.__init__\<close>: the salary first, then the year written into the row, then the flag.\<close>

definition Vacancy_init :: "row \<Rightarrow> error + Vacancy" where
  "Vacancy_init d =
     (case Salary_init d of Inl e \<Rightarrow> Inl e | Inr sal \<Rightarrow>
      case d ''published_at'' of None \<Rightarrow> Inl KeyError | Some p \<Rightarrow>
      case published_prefix p of Inl e \<Rightarrow> Inl e | Inr pre \<Rightarrow>
      case py_int pre of Inl e \<Rightarrow> Inl e | Inr y \<Rightarrow>
      let d' = d(''year'' \<mapsto> PyInt y) in
      case d' ''is_needed'' of None \<Rightarrow> Inl KeyError | Some b \<Rightarrow>
        Inr \<lparr>dic = d', salary = sal, is_needed = b\<rparr>)"

section \<open>Dictionaries with insertion order\<close>

text \<open>
  The aggregate dictionaries are iterated, sorted and printed, so their order matters:
  a dictionary is the list of its items in insertion order, with distinct keys.
  Assigning to a key that is present keeps its place, a new key goes to the end.
\<close>

type_synonym ('k, 'v) dict = "('k \<times> 'v) list"

definition dict_get :: "('k, 'v) dict \<Rightarrow> 'k \<Rightarrow> 'v option" where
  "dict_get d k = map_of d k"

fun dict_set :: "('k, 'v) dict \<Rightarrow> 'k \<Rightarrow> 'v \<Rightarrow> ('k, 'v) dict" where
  "dict_set [] k v = [(k, v)]"
| "dict_set (p # d) k v = (if fst p = k then (fst p, v) # d else p # dict_set d k v)"

definition dict_keys :: "('k, 'v) dict \<Rightarrow> 'k list" where
  "dict_keys d = map fst d"

text \<open>\<^verbatim>\<open>dict(items)\<close>: the items are assigned one after the other.\<close>

fun dict_of_items :: "('k, 'v) dict \<Rightarrow> ('k \<times> 'v) list \<Rightarrow> ('k, 'v) dict" where
  "dict_of_items acc [] = acc"
| "dict_of_items acc (p # ps) = dict_of_items (dict_set acc (fst p) (snd p)) ps"

section \<open>DataSet\<close>

text \<open>
  \<^verbatim>\<open>csv_reader\<close>, on the rows the CSV reader yields: the first row is the header
  (\<^verbatim>\<open>next\<close> raises on no row at all), the list comprehension keeps or drops each other row.
\<close>

fun keep_lines :: "string list \<Rightarrow> string list list \<Rightarrow> string list list" where
  "keep_lines firstLine [] = []"
| "keep_lines firstLine (line # file) =
     (if \<not> ('''' \<in> set line) \<and> length line = length firstLine
      then line # keep_lines firstLine file
      else keep_lines firstLine file)"

fun csv_reader :: "string list list \<Rightarrow> error + (string list \<times> string list list)" where
  "csv_reader [] = Inl StopIteration"
| "csv_reader (firstLine # file) = Inr (firstLine, keep_lines firstLine file)"

text \<open>\<^verbatim>\<open>tryToAdd\<close>: \<^verbatim>\<open>dic[key] += val\<close> raises on a missing key, and then the key is set.\<close>

definition tryToAdd :: "('k, 'v::plus) dict \<Rightarrow> 'k \<Rightarrow> 'v \<Rightarrow> ('k, 'v) dict" where
  "tryToAdd d key val =
     (case dict_get d key of
        Some old \<Rightarrow> dict_set d key (old + val)
      | None \<Rightarrow> dict_set d key val)"

text \<open>
  \<^verbatim>\<open>csv_filter\<close>: \<^verbatim>\<open>dict(zip(firstLine, line))\<close> (a later column of the same name wins),
  the flag from \<^verbatim>\<open>str.find\<close>, and one \<^verbatim>\<open>Vacancy\<close> per line.
\<close>

fun row_of_items :: "row \<Rightarrow> (string \<times> string) list \<Rightarrow> row" where
  "row_of_items d [] = d"
| "row_of_items d (p # ps) = row_of_items (d(fst p \<mapsto> PyStr (snd p))) ps"

fun str_find :: "string \<Rightarrow> string \<Rightarrow> nat \<Rightarrow> int" where
  "str_find [] sub i = (if sub = [] then int i else - 1)"
| "str_find (c # s) sub i = (if take (length sub) (c # s) = sub then int i else str_find s sub (Suc i))"

fun name_find :: "pyval \<Rightarrow> string \<Rightarrow> error + int" where
  "name_find (PyStr s) sub = Inr (str_find s sub 0)"
| "name_find (PyInt n) sub = Inl TypeError"

definition line_vacancy :: "string \<Rightarrow> string list \<Rightarrow> string list \<Rightarrow> error + Vacancy" where
  "line_vacancy professionName firstLine line =
     (let newDict = row_of_items Map.empty (zip firstLine line) in
      case newDict ''name'' of None \<Rightarrow> Inl KeyError | Some nm \<Rightarrow>
      case name_find nm professionName of Inl e \<Rightarrow> Inl e | Inr i \<Rightarrow>
        Vacancy_init (newDict(''is_needed'' \<mapsto> py_bool (i > - 1))))"

fun filter_lines :: "string \<Rightarrow> string list \<Rightarrow> string list list \<Rightarrow> Vacancy list \<Rightarrow> error + Vacancy list" where
  "filter_lines professionName firstLine [] acc = Inr acc"
| "filter_lines professionName firstLine (line # rest) acc =
     (case line_vacancy professionName firstLine line of
        Inl e \<Rightarrow> Inl e
      | Inr v \<Rightarrow> filter_lines professionName firstLine rest (acc @ [v]))"

text \<open>The result is the pair \<^verbatim>\<open>(filterVacancies, necessaryVacancies)\<close>.\<close>

definition csv_filter :: "string \<Rightarrow> string list \<Rightarrow> string list list \<Rightarrow> error + (Vacancy list \<times> Vacancy list)" where
  "csv_filter professionName firstLine otherLines =
     (case filter_lines professionName firstLine otherLines [] of
        Inl e \<Rightarrow> Inl e
      | Inr filterVacancies \<Rightarrow>
          Inr (filterVacancies, filter (\<lambda>v. truthy (is_needed v)) filterVacancies))"

text \<open>
  \<^verbatim>\<open>getYears\<close>: the years of all vacancies, without duplicates, sorted. Sorting two values
  of different types raises; integers sort by value, strings by code points.
\<close>

fun year_values :: "Vacancy list \<Rightarrow> error + pyval list" where
  "year_values [] = Inr []"
| "year_values (v # vs) =
     (case dic v ''year'' of
        None \<Rightarrow> Inl KeyError
      | Some y \<Rightarrow> (case year_values vs of Inl e \<Rightarrow> Inl e | Inr ys \<Rightarrow> Inr (y # ys)))"

fun the_ints :: "pyval list \<Rightarrow> int list option" where
  "the_ints [] = Some []"
| "the_ints (PyInt n # xs) = map_option (Cons n) (the_ints xs)"
| "the_ints (PyStr s # xs) = None"

fun the_strs :: "pyval list \<Rightarrow> string list option" where
  "the_strs [] = Some []"
| "the_strs (PyStr s # xs) = map_option (Cons s) (the_strs xs)"
| "the_strs (PyInt n # xs) = None"

definition py_sort :: "pyval list \<Rightarrow> error + pyval list" where
  "py_sort xs =
     (case the_ints xs of
        Some ns \<Rightarrow> Inr (map PyInt (sort ns))
      | None \<Rightarrow>
          (case the_strs xs of
             Some ss \<Rightarrow> Inr (map PyStr (sort ss))
           | None \<Rightarrow> Inl TypeError))"

definition getYears :: "Vacancy list \<Rightarrow> error + pyval list" where
  "getYears filterVacancies =
     (case year_values filterVacancies of
        Inl e \<Rightarrow> Inl e
      | Inr ys \<Rightarrow> py_sort (remdups ys))"

text \<open>\<^verbatim>\<open>getAverageSalary\<close>: one pass over the items of \<^verbatim>\<open>count\<close>; \<^verbatim>\<open>sum[key]\<close> may be missing.\<close>

fun average_items :: "('k \<times> int) list \<Rightarrow> ('k, real) dict \<Rightarrow> ('k, int) dict \<Rightarrow> error + ('k, int) dict" where
  "average_items [] keySum keySalary = Inr keySalary"
| "average_items (item # items) keySum keySalary =
     (if snd item = 0 then average_items items keySum (dict_set keySalary (fst item) 0)
      else case dict_get keySum (fst item) of
             None \<Rightarrow> Inl KeyError
           | Some s \<Rightarrow>
               average_items items keySum
                 (dict_set keySalary (fst item) \<lfloor>s / real_of_int (snd item)\<rfloor>))"

definition getAverageSalary :: "('k, int) dict \<Rightarrow> ('k, real) dict \<Rightarrow> error + ('k, int) dict" where
  "getAverageSalary count keySum = average_items count keySum []"

text \<open>
  \<^verbatim>\<open>getSortedDict\<close>: \<^verbatim>\<open>sorted\<close> is stable, and with \<^verbatim>\<open>reverse=True\<close> it reverses the list,
  sorts it ascending and reverses the result.
\<close>

definition sorted_reverse :: "('k \<times> 'v::linorder) list \<Rightarrow> ('k \<times> 'v) list" where
  "sorted_reverse items = rev (sort_key snd (rev items))"

definition getSortedDict :: "('k, 'v::linorder) dict \<Rightarrow> ('k, 'v) dict" where
  "getSortedDict keySalary = dict_of_items [] (take 10 (sorted_reverse keySalary))"

text \<open>\<^verbatim>\<open>updateKeys\<close>: every year that is not a key yet is added with 0.\<close>

fun updateKeys :: "'k list \<Rightarrow> ('k, 'v::zero) dict \<Rightarrow> ('k, 'v) dict" where
  "updateKeys [] keyCount = keyCount"
| "updateKeys (key # allYears) keyCount =
     (if key \<notin> set (dict_keys keyCount)
      then updateKeys allYears (dict_set keyCount key 0)
      else updateKeys allYears keyCount)"

text \<open>
  \<^verbatim>\<open>getKey\<close>: the loop over the vacancies, then the zero fill or the pruning, then the
  averages. \<^verbatim>\<open>self.allYears\<close> is a parameter.
\<close>

fun accumulate :: "Vacancy list \<Rightarrow> string \<Rightarrow> (pyval, real) dict \<Rightarrow> (pyval, int) dict \<Rightarrow>
    error + ((pyval, real) dict \<times> (pyval, int) dict)" where
  "accumulate [] key_str keySum keyCount = Inr (keySum, keyCount)"
| "accumulate (v # vacancies) key_str keySum keyCount =
     (case dic v key_str of
        None \<Rightarrow> Inl KeyError
      | Some k \<Rightarrow>
          accumulate vacancies key_str
            (tryToAdd keySum k (salaryRub (salary v))) (tryToAdd keyCount k 1))"

definition prune :: "nat \<Rightarrow> (pyval, int) dict \<Rightarrow> error + (pyval, int) dict" where
  "prune n keyCount =
     (if keyCount \<noteq> [] \<and> n = 0 then Inl ZeroDivisionError
      else Inr (dict_of_items []
                  (filter (\<lambda>item. real_of_int (snd item) / real n > 1 / 100) keyCount)))"

definition getKey :: "pyval list \<Rightarrow> Vacancy list \<Rightarrow> string \<Rightarrow> bool \<Rightarrow>
    error + ((pyval, int) dict \<times> (pyval, int) dict)" where
  "getKey allYears vacancies key_str isArea =
     (case accumulate vacancies key_str [] [] of
        Inl e \<Rightarrow> Inl e
      | Inr (keySum, keyCount) \<Rightarrow>
          (case (if \<not> isArea
                 then Inr (updateKeys allYears keySum, updateKeys allYears keyCount)
                 else map_sum id (Pair keySum) (prune (length vacancies) keyCount)) of
             Inl e \<Rightarrow> Inl e
           | Inr (keySum', keyCount') \<Rightarrow>
               (case getAverageSalary keyCount' keySum' of
                  Inl e \<Rightarrow> Inl e
                | Inr keyAverageSalary \<Rightarrow> Inr (keyAverageSalary, keyCount'))))"

text \<open>
  \<^verbatim>\<open>numberGraph\<close> sets the output fields. The share of each area (\<^verbatim>\<open>areaPiece\<close>) is
  a rounded float and is left out.
\<close>

record Statistics =
  yearSalary :: "(pyval, int) dict"
  year_to_count :: "(pyval, int) dict"
  yearSalary_needed :: "(pyval, int) dict"
  yearCount :: "(pyval, int) dict"
  areaSalary :: "(pyval, int) dict"
  area_to_count :: "(pyval, int) dict"

definition numberGraph :: "pyval list \<Rightarrow> Vacancy list \<Rightarrow> Vacancy list \<Rightarrow> error + Statistics" where
  "numberGraph allYears filterVacancies necessaryVacancies =
     (case getKey allYears filterVacancies ''year'' False of Inl e \<Rightarrow> Inl e | Inr (ys, yc) \<Rightarrow>
     (case getKey allYears necessaryVacancies ''year'' False of Inl e \<Rightarrow> Inl e | Inr (ysn, ycn) \<Rightarrow>
     (case getKey allYears filterVacancies ''area_name'' True of Inl e \<Rightarrow> Inl e | Inr (asal, ac) \<Rightarrow>
        Inr \<lparr>yearSalary = ys, year_to_count = yc, yearSalary_needed = ysn, yearCount = ycn,
              areaSalary = getSortedDict asal, area_to_count = ac\<rparr>)))"

text \<open>
  \<^verbatim>\<open>DataSet.__init__\<close> on the rows of the file, with the profession name of the input
  values: reader, filter, years, statistics.
\<close>

definition DataSet_init :: "string \<Rightarrow> string list list \<Rightarrow> error + Statistics" where
  "DataSet_init professionName file =
     (case csv_reader file of Inl e \<Rightarrow> Inl e | Inr (firstLine, otherLines) \<Rightarrow>
     (case csv_filter professionName firstLine otherLines of Inl e \<Rightarrow> Inl e
      | Inr (filterVacancies, necessaryVacancies) \<Rightarrow>
     (case getYears filterVacancies of Inl e \<Rightarrow> Inl e | Inr allYears \<Rightarrow>
        numberGraph allYears filterVacancies necessaryVacancies)))"

section \<open>Measures and example inputs\<close>

text \<open>How many of the vacancies have the value \<open>k\<close> under the grouping key.\<close>

definition occurrences :: "Vacancy list \<Rightarrow> string \<Rightarrow> pyval \<Rightarrow> nat" where
  "occurrences vacancies key_str k = length (filter (\<lambda>v. dic v key_str = Some k) vacancies)"






text \<open>
  A file of two vacancies in the order of their years; the second one is of the profession
  asked for.
\<close>

definition example_header :: "string list" where
  "example_header =
     [''name'', ''salary_from'', ''salary_to'', ''salary_currency'', ''area_name'', ''published_at'']"

definition moscow_line :: "string list" where
  "moscow_line = [''Programmer'', ''100'', ''200'', ''RUR'', ''Moscow'', ''2007-12-03T17:34:36+0300'']"

definition kazan_line :: "string list" where
  "kazan_line = [''Analyst'', ''100'', ''200'', ''EUR'', ''Kazan'', ''2008-12-03T17:34:36+0300'']"

definition example_file :: "string list list" where
  "example_file = [example_header, moscow_line, kazan_line]"

definition reversed_file :: "string list list" where
  "reversed_file = [example_header, kazan_line, moscow_line]"

text \<open>The twelve items of the docstring of \<^verbatim>\<open>getSortedDict\<close>.\<close>

definition twelve_items :: "(string, int) dict" where
  "twelve_items = [(''1'', 1), (''2'', 2), (''3'', 3), (''4'', 4), (''5'', 5), (''6'', 6),
     (''7'', 7), (''8'', 8), (''9'', 9), (''10'', 10), (''11'', 11), (''12'', 12)]"

definition moscow_2007 :: Vacancy where
  "moscow_2007 = projr (line_vacancy ''Analyst'' example_header moscow_line)"

definition kazan_2008 :: Vacancy where
  "kazan_2008 = projr (line_vacancy ''Analyst'' example_header kazan_line)"

section \<open>Facts about dictionaries\<close>

lemma map_of_dict_set: "map_of (dict_set d k v) = (map_of d)(k \<mapsto> v)"
  by (induction d) (auto simp: fun_eq_iff)

lemma keys_dict_set:
  "map fst (dict_set d k v) = (if k \<in> set (map fst d) then map fst d else map fst d @ [k])"
  by (induction d) auto

lemma dict_set_new: "k \<notin> set (map fst d) \<Longrightarrow> dict_set d k v = d @ [(k, v)]"
  by (induction d) auto

lemma dict_of_items_distinct:
  "distinct (map fst ps) \<Longrightarrow> set (map fst ps) \<inter> set (map fst acc) = {} \<Longrightarrow>
   dict_of_items acc ps = acc @ ps"
proof (induction ps arbitrary: acc)
  case Nil
  then show ?case by simp
next
  case (Cons p ps)
  have new: "fst p \<notin> set (map fst acc)" using Cons.prems(2) by auto
  have "dict_of_items (acc @ [p]) ps = (acc @ [p]) @ ps"
    using Cons.prems by (intro Cons.IH) auto
  then show ?case using new by (simp add: dict_set_new)
qed

section \<open>The accumulator\<close>

text \<open>
  C10. For every dictionary \<open>d\<close>, key \<open>k\<close> and value \<open>v\<close>, the dictionary that
  \<^verbatim>\<open>tryToAdd\<close> returns has \<open>d[k] + v\<close> at \<open>k\<close> when \<open>k\<close> was present and \<open>v\<close> when it was
  not, and every other key has the entry it had.
\<close>

theorem tryToAdd_entries:
  "dict_get (tryToAdd d k v) k = Some (case dict_get d k of Some old \<Rightarrow> old + v | None \<Rightarrow> v)
   \<and> (\<forall>k'. k' \<noteq> k \<longrightarrow> dict_get (tryToAdd d k v) k' = dict_get d k')"
  by (simp add: tryToAdd_def dict_get_def map_of_dict_set split: option.split)

theorem tryToAdd_entries_witness:
  "dict_get (tryToAdd [(''1'', 1::int)] ''1'' 1) ''1'' = Some 2
   \<and> ''2'' \<noteq> ''1''
   \<and> dict_get (tryToAdd [(''1'', 1::int)] ''1'' 1) ''2'' = dict_get [(''1'', 1)] ''2''
   \<and> dict_get (tryToAdd [(''1'', 1::int)] ''2'' 2) ''2'' = Some 2"
  using tryToAdd_entries [of "[(''1'', 1::int)]" "''1''" 1]
        tryToAdd_entries [of "[(''1'', 1::int)]" "''2''" 2]
  by (simp add: dict_get_def)

section \<open>The ingestion filter\<close>

lemma keep_lines_filter:
  "keep_lines firstLine rows =
   filter (\<lambda>line. (\<forall>field\<in>set line. field \<noteq> []) \<and> length line = length firstLine) rows"
  by (induction rows) auto

text \<open>
  C6. \<^verbatim>\<open>csv_reader\<close> keeps exactly the data rows that have no empty field and as many
  fields as the header; every other row is dropped, and the rows kept are unchanged and
  in their original order.
\<close>

theorem csv_reader_keeps:
  "csv_reader (firstLine # rows) =
     Inr (firstLine,
          filter (\<lambda>line. (\<forall>field\<in>set line. field \<noteq> []) \<and> length line = length firstLine) rows)
   \<and> (\<forall>otherLines. csv_reader (firstLine # rows) = Inr (firstLine, otherLines) \<longrightarrow>
         subseq otherLines rows
         \<and> (\<forall>line\<in>set rows. line \<in> set otherLines \<longleftrightarrow>
               [] \<notin> set line \<and> length line = length firstLine))"
  by (auto simp: keep_lines_filter)

theorem csv_reader_keeps_witness:
  "csv_reader [[''name'', ''area_name''], [''a'', ''b''], [''c'', []], [''d''], [''e'', ''f'', ''g''], [''h'', ''i'']]
     = Inr ([''name'', ''area_name''], [[''a'', ''b''], [''h'', ''i'']])
   \<and> [''c'', []] \<in> set [[''a'', ''b''], [''c'', []], [''d''], [''e'', ''f'', ''g''], [''h'', ''i'']]
   \<and> [''c'', []] \<notin> set [[''a'', ''b''], [''h'', ''i'']]"
  using csv_reader_keeps [of "[''name'', ''area_name'']"
          "[[''a'', ''b''], [''c'', []], [''d''], [''e'', ''f'', ''g''], [''h'', ''i'']]"]
  by simp

section \<open>Average salaries\<close>

lemma average_items_map:
  assumes "distinct (map fst items)"
    and "set (map fst items) \<inter> set (map fst acc) = {}"
    and "\<forall>item\<in>set items. snd item \<noteq> 0 \<longrightarrow> dict_get keySum (fst item) \<noteq> None"
  shows "average_items items keySum acc =
         Inr (acc @ map (\<lambda>item. (fst item,
                 if snd item = 0 then 0
                 else \<lfloor>the (dict_get keySum (fst item)) / real_of_int (snd item)\<rfloor>)) items)"
  using assms
proof (induction items arbitrary: acc)
  case Nil
  then show ?case by simp
next
  case (Cons item items)
  have new: "fst item \<notin> set (map fst acc)" using Cons.prems(2) by auto
  have rest: "set (map fst items) \<inter> set (map fst (acc @ [(fst item, x)])) = {}" for x :: int
    using Cons.prems(1,2) by auto
  show ?case
  proof (cases "snd item = 0")
    case True
    then show ?thesis
      using Cons.IH [OF _ rest [of 0]] Cons.prems(1,3) new by (simp add: dict_set_new)
  next
    case False
    then obtain s where s: "dict_get keySum (fst item) = Some s"
      using Cons.prems(3) by auto
    show ?thesis
      using False s Cons.IH [OF _ rest [of "\<lfloor>s / real_of_int (snd item)\<rfloor>"]] Cons.prems(1,3) new
      by (simp add: dict_set_new)
  qed
qed

lemma getAverageSalary_map:
  assumes "distinct (map fst count)"
    and "\<forall>item\<in>set count. snd item \<noteq> 0 \<longrightarrow> dict_get keySum (fst item) \<noteq> None"
  shows "getAverageSalary count keySum =
         Inr (map (\<lambda>item. (fst item,
                 if snd item = 0 then 0
                 else \<lfloor>the (dict_get keySum (fst item)) / real_of_int (snd item)\<rfloor>)) count)"
  using average_items_map [of count "[]" keySum] assms
  by (simp add: getAverageSalary_def)



section \<open>Salary\<close>








section \<open>Vacancy and its year\<close>

















section \<open>The ranking\<close>

lemma distinct_keys_sorted_reverse:
  "distinct (map fst d) \<Longrightarrow> distinct (map fst (sorted_reverse d))"
  by (simp add: sorted_reverse_def distinct_map rev_map[symmetric])

lemma sorted_reverse_descending:
  "sorted_wrt (\<lambda>a b. snd b \<le> snd a) (sorted_reverse d)"
proof -
  have "sorted (map snd (sort_key snd (rev d)))" by (rule sorted_sort_key)
  then have "sorted_wrt (\<lambda>a b. snd a \<le> snd b) (sort_key snd (rev d))"
    by (simp add: sorted_wrt_map)
  then show ?thesis by (simp add: sorted_reverse_def sorted_wrt_rev)
qed

lemma sorted_reverse_stable:
  "filter (\<lambda>e. snd e = v) (sorted_reverse d) = filter (\<lambda>e. snd e = v) d"
  by (simp add: sorted_reverse_def rev_filter[symmetric] sort_key_stable)

lemma sorted_wrt_take_any: "sorted_wrt R xs \<Longrightarrow> sorted_wrt R (take n xs)"
  by (metis append_take_drop_id sorted_wrt_append)

lemma getSortedDict_take:
  "distinct (dict_keys d) \<Longrightarrow> getSortedDict d = take 10 (sorted_reverse d)"
  using dict_of_items_distinct [of "take 10 (sorted_reverse d)" "[]"]
        distinct_keys_sorted_reverse [of d]
  by (simp add: getSortedDict_def dict_keys_def take_map[symmetric])

text \<open>
  C4. For every dictionary, \<^verbatim>\<open>getSortedDict\<close> returns at most 10 items (all of them when
  there are fewer), sorted by value in descending order; items of equal value stand in
  the order they had in the input; the items returned are items of the input, and no
  item left out has a greater value than an item returned.
\<close>

theorem getSortedDict_top10:
  assumes "distinct (dict_keys d)"
  shows "length (getSortedDict d) = min 10 (length d)
       \<and> sorted_wrt (\<lambda>a b. snd b \<le> snd a) (getSortedDict d)
       \<and> (\<forall>v. prefix (filter (\<lambda>e. snd e = v) (getSortedDict d)) (filter (\<lambda>e. snd e = v) d))
       \<and> set (getSortedDict d) \<subseteq> set d
       \<and> (\<forall>a\<in>set (getSortedDict d). \<forall>b\<in>set d - set (getSortedDict d). snd b \<le> snd a)"
proof (intro conjI allI ballI)
  note eq = getSortedDict_take [OF assms]
  show "length (getSortedDict d) = min 10 (length d)"
    by (simp add: eq sorted_reverse_def)
  show "sorted_wrt (\<lambda>a b. snd b \<le> snd a) (getSortedDict d)"
    by (simp add: eq sorted_wrt_take_any sorted_reverse_descending)
  show "prefix (filter (\<lambda>e. snd e = v) (getSortedDict d)) (filter (\<lambda>e. snd e = v) d)" for v
    using filter_mono_prefix [OF take_is_prefix, of "\<lambda>e. snd e = v" 10 "sorted_reverse d"]
    by (simp add: eq sorted_reverse_stable)
  have sub: "set (take 10 (sorted_reverse d)) \<subseteq> set (sorted_reverse d)" by (rule set_take_subset)
  have sd: "set (sorted_reverse d) = set d" by (simp add: sorted_reverse_def)
  show "set (getSortedDict d) \<subseteq> set d" using sub sd eq by simp
  fix a b assume a: "a \<in> set (getSortedDict d)" and b: "b \<in> set d - set (getSortedDict d)"
  let ?s = "sorted_reverse d"
  have "b \<in> set ?s" using b sd by simp
  moreover have "b \<notin> set (take 10 ?s)" using b eq by simp
  ultimately have bd: "b \<in> set (drop 10 ?s)"
    by (metis Un_iff append_take_drop_id set_append)
  have "sorted_wrt (\<lambda>a b. snd b \<le> snd a) (take 10 ?s @ drop 10 ?s)"
    using sorted_reverse_descending [of d] by simp
  then show "snd b \<le> snd a" using a bd eq unfolding sorted_wrt_append by auto
qed

theorem getSortedDict_top10_witness:
  "distinct (dict_keys [(''a'', 1::int), (''b'', 2), (''c'', 1), (''d'', 2)])
   \<and> getSortedDict [(''a'', 1::int), (''b'', 2), (''c'', 1), (''d'', 2)]
       = [(''b'', 2), (''d'', 2), (''a'', 1), (''c'', 1)]
   \<and> distinct (dict_keys twelve_items)
   \<and> length (getSortedDict twelve_items) = 10
   \<and> (''1'', 1) \<notin> set (getSortedDict twelve_items)
   \<and> (''2'', 2) \<notin> set (getSortedDict twelve_items)"
proof -
  have d: "distinct (dict_keys [(''a'', 1::int), (''b'', 2), (''c'', 1), (''d'', 2)])"
    by (simp add: dict_keys_def)
  have e: "getSortedDict [(''a'', 1::int), (''b'', 2), (''c'', 1), (''d'', 2)]
       = [(''b'', 2), (''d'', 2), (''a'', 1), (''c'', 1)]"
    by code_simp
  have d12: "distinct (dict_keys twelve_items)" by (simp add: dict_keys_def twelve_items_def)
  have l12: "length twelve_items = 12" by (simp add: twelve_items_def)
  have n12: "(''1'', 1) \<notin> set (getSortedDict twelve_items)"
            "(''2'', 2) \<notin> set (getSortedDict twelve_items)"
    by code_simp+
  show ?thesis
    using getSortedDict_top10 [OF d] getSortedDict_top10 [OF d12] d e d12 l12 n12 by simp
qed

section \<open>Grouping\<close>

subsection \<open>The accumulator and the zero fill on keys and entries\<close>

lemma map_of_tryToAdd:
  "map_of (tryToAdd d k v) =
   (map_of d)(k \<mapsto> (case map_of d k of Some old \<Rightarrow> old + v | None \<Rightarrow> v))"
  by (simp add: tryToAdd_def dict_get_def map_of_dict_set split: option.split)

lemma keys_tryToAdd:
  "map fst (tryToAdd d k v) = (if k \<in> set (map fst d) then map fst d else map fst d @ [k])"
  by (simp add: tryToAdd_def keys_dict_set split: option.split)

lemma distinct_tryToAdd: "distinct (map fst d) \<Longrightarrow> distinct (map fst (tryToAdd d k v))"
  by (simp add: keys_tryToAdd)

lemma keys_updateKeys:
  "distinct ys \<Longrightarrow>
   map fst (updateKeys ys d) = map fst d @ filter (\<lambda>y. y \<notin> set (map fst d)) ys"
proof (induction ys arbitrary: d)
  case Nil
  then show ?case by simp
next
  case (Cons y ys)
  show ?case
  proof (cases "y \<in> set (map fst d)")
    case True
    then show ?thesis using Cons by (simp add: dict_keys_def)
  next
    case False
    have s: "set (map fst (dict_set d y 0)) = insert y (set (map fst d))"
      using False by (auto simp: keys_dict_set)
    have f: "filter (\<lambda>z. z \<notin> insert y (set (map fst d))) ys = filter (\<lambda>z. z \<notin> set (map fst d)) ys"
      using Cons.prems by (intro filter_cong) auto
    have "map fst (updateKeys ys (dict_set d y 0)) =
          map fst (dict_set d y 0) @ filter (\<lambda>z. z \<notin> set (map fst (dict_set d y 0))) ys"
      using Cons.prems by (intro Cons.IH) simp
    then show ?thesis using False unfolding s f by (simp add: dict_keys_def keys_dict_set)
  qed
qed

lemma map_of_updateKeys:
  "map_of (updateKeys ys d) k =
   (if k \<in> set ys \<and> map_of d k = None then Some 0 else map_of d k)"
proof (induction ys arbitrary: d)
  case Nil
  then show ?case by simp
next
  case (Cons y ys)
  show ?case
    by (auto simp: Cons dict_keys_def map_of_dict_set map_of_eq_None_iff)
qed

lemma distinct_updateKeys:
  "distinct (map fst d) \<Longrightarrow> distinct (map fst (updateKeys ys d))"
  by (induction ys arbitrary: d) (auto simp: dict_keys_def keys_dict_set)

lemma keys_updateKeys_cong:
  "map fst d = map fst d' \<Longrightarrow> map fst (updateKeys ys d) = map fst (updateKeys ys d')"
  by (induction ys arbitrary: d d') (auto simp: dict_keys_def keys_dict_set)

subsection \<open>The accumulation loop\<close>

lemma accumulate_returns:
  "\<forall>v\<in>set vs. dic v key_str \<noteq> None \<Longrightarrow> \<exists>ks kc. accumulate vs key_str ks0 kc0 = Inr (ks, kc)"
  by (induction vs arbitrary: ks0 kc0) auto

lemma accumulate_keys:
  "accumulate vs key_str ks0 kc0 = Inr (ks, kc) \<Longrightarrow> map fst ks0 = map fst kc0 \<Longrightarrow>
   map fst ks = map fst kc"
proof (induction vs arbitrary: ks0 kc0)
  case Nil
  then show ?case by simp
next
  case (Cons v vs)
  then show ?case by (auto simp: keys_tryToAdd split: option.splits)
qed

lemma accumulate_distinct:
  "accumulate vs key_str ks0 kc0 = Inr (ks, kc) \<Longrightarrow> distinct (map fst kc0) \<Longrightarrow>
   distinct (map fst kc)"
proof (induction vs arbitrary: ks0 kc0)
  case Nil
  then show ?case by simp
next
  case (Cons v vs)
  then show ?case by (auto simp: distinct_tryToAdd split: option.splits)
qed

lemma accumulate_count:
  "accumulate vs key_str ks0 kc0 = Inr (ks, kc) \<Longrightarrow>
   map_of kc k =
     (if occurrences vs key_str k = 0 then map_of kc0 k
      else Some ((case map_of kc0 k of None \<Rightarrow> 0 | Some c \<Rightarrow> c) + int (occurrences vs key_str k)))"
proof (induction vs arbitrary: ks0 kc0)
  case Nil
  then show ?case by (simp add: occurrences_def)
next
  case (Cons v vs)
  from Cons.prems obtain k' where k': "dic v key_str = Some k'"
    and rest: "accumulate vs key_str (tryToAdd ks0 k' (salaryRub (salary v))) (tryToAdd kc0 k' 1) = Inr (ks, kc)"
    by (auto split: option.splits)
  show ?case
    unfolding Cons.IH [OF rest]
    using k' by (auto simp: occurrences_def map_of_tryToAdd split: option.splits)
qed

lemma accumulate_count_empty:
  "accumulate vs key_str [] [] = Inr (ks, kc) \<Longrightarrow>
   map_of kc k = (if occurrences vs key_str k = 0 then None else Some (int (occurrences vs key_str k)))"
  by (simp add: accumulate_count)

lemma accumulate_nonempty:
  "accumulate vs key_str [] [] = Inr (ks, kc) \<Longrightarrow> kc = [] \<or> length vs \<noteq> 0"
  by (cases vs) auto

subsection \<open>The years of the data set\<close>

lemma the_ints_eq: "the_ints xs = Some ns \<Longrightarrow> xs = map PyInt ns"
  by (induction xs arbitrary: ns rule: the_ints.induct) auto

lemma the_strs_eq: "the_strs xs = Some ss \<Longrightarrow> xs = map PyStr ss"
  by (induction xs arbitrary: ss rule: the_strs.induct) auto

lemma py_sort_set: "py_sort xs = Inr ys \<Longrightarrow> set ys = set xs"
  by (auto simp: py_sort_def split: option.splits dest!: the_ints_eq the_strs_eq)

lemma py_sort_distinct: "py_sort xs = Inr ys \<Longrightarrow> distinct xs \<Longrightarrow> distinct ys"
  by (auto simp: py_sort_def distinct_map inj_on_def split: option.splits dest!: the_ints_eq the_strs_eq)

lemma year_values_set:
  "year_values vs = Inr ys \<Longrightarrow> set ys = {k. \<exists>v\<in>set vs. dic v ''year'' = Some k}"
proof (induction vs arbitrary: ys)
  case Nil
  then show ?case by simp
next
  case (Cons v vs)
  then show ?case by (auto split: option.splits sum.splits)
qed

lemma year_values_present:
  "year_values vs = Inr ys \<Longrightarrow> v \<in> set vs \<Longrightarrow> dic v ''year'' \<noteq> None"
  by (induction vs arbitrary: ys) (auto split: option.splits sum.splits)

lemma getYears_set:
  "getYears vs = Inr ys \<Longrightarrow> set ys = {k. \<exists>v\<in>set vs. dic v ''year'' = Some k}"
  by (auto simp: getYears_def split: sum.splits dest!: py_sort_set year_values_set)

lemma getYears_distinct: "getYears vs = Inr ys \<Longrightarrow> distinct ys"
  by (auto simp: getYears_def split: sum.splits dest: py_sort_distinct)

lemma getYears_present: "getYears vs = Inr ys \<Longrightarrow> v \<in> set vs \<Longrightarrow> dic v ''year'' \<noteq> None"
  by (auto simp: getYears_def split: sum.splits dest: year_values_present)

subsection \<open>What getKey returns\<close>

lemma map_of_map_items:
  "map_of (map (\<lambda>item. (fst item, g item)) xs) k =
   (case map_of xs k of None \<Rightarrow> None | Some c \<Rightarrow> Some (g (k, c)))"
  by (induction xs) auto

lemma getKey_year:
  assumes acc: "accumulate vs key_str [] [] = Inr (ks, kc)"
  shows "getKey ys vs key_str False =
     Inr (map (\<lambda>item. (fst item,
                 if snd item = 0 then 0
                 else \<lfloor>the (dict_get (updateKeys ys ks) (fst item)) / real_of_int (snd item)\<rfloor>))
             (updateKeys ys kc),
          updateKeys ys kc)"
proof -
  have k: "map fst ks = map fst kc" using accumulate_keys [OF acc] by simp
  have d: "distinct (map fst kc)" using accumulate_distinct [OF acc] by simp
  have d': "distinct (map fst (updateKeys ys kc))" using d by (rule distinct_updateKeys)
  have k': "map fst (updateKeys ys ks) = map fst (updateKeys ys kc)"
    using k by (rule keys_updateKeys_cong)
  have p: "\<forall>item\<in>set (updateKeys ys kc). snd item \<noteq> 0 \<longrightarrow>
             dict_get (updateKeys ys ks) (fst item) \<noteq> None"
  proof
    fix item assume "item \<in> set (updateKeys ys kc)"
    then have "fst item \<in> set (map fst (updateKeys ys ks))" unfolding k' by simp
    then show "snd item \<noteq> 0 \<longrightarrow> dict_get (updateKeys ys ks) (fst item) \<noteq> None"
      by (simp add: dict_get_def map_of_eq_None_iff)
  qed
  show ?thesis
    using acc getAverageSalary_map [OF d' p] by (simp add: getKey_def)
qed

lemma prune_filter:
  assumes "distinct (map fst kc)" and "kc = [] \<or> n \<noteq> 0"
  shows "prune n kc = Inr (filter (\<lambda>item. real_of_int (snd item) / real n > 1 / 100) kc)"
proof -
  have "distinct (map fst (filter (\<lambda>item. real_of_int (snd item) / real n > 1 / 100) kc))"
    using assms(1) by (rule distinct_map_filter)
  then show ?thesis
    using assms(2) dict_of_items_distinct [of "filter (\<lambda>item. real_of_int (snd item) / real n > 1 / 100) kc" "[]"]
    by (auto simp: prune_def)
qed

lemma getKey_area:
  assumes acc: "accumulate vs key_str [] [] = Inr (ks, kc)"
  shows "getKey ys vs key_str True =
     Inr (map (\<lambda>item. (fst item,
                 if snd item = 0 then 0
                 else \<lfloor>the (dict_get ks (fst item)) / real_of_int (snd item)\<rfloor>))
             (filter (\<lambda>item. real_of_int (snd item) / real (length vs) > 1 / 100) kc),
          filter (\<lambda>item. real_of_int (snd item) / real (length vs) > 1 / 100) kc)"
proof -
  let ?f = "filter (\<lambda>item. real_of_int (snd item) / real (length vs) > 1 / 100) kc"
  have k: "map fst ks = map fst kc" using accumulate_keys [OF acc] by simp
  have d: "distinct (map fst kc)" using accumulate_distinct [OF acc] by simp
  have pr: "prune (length vs) kc = Inr ?f"
    using prune_filter [OF d accumulate_nonempty [OF acc]] .
  have d': "distinct (map fst ?f)" using d by (rule distinct_map_filter)
  have p: "\<forall>item\<in>set ?f. snd item \<noteq> 0 \<longrightarrow> dict_get ks (fst item) \<noteq> None"
  proof
    fix item assume "item \<in> set ?f"
    then have "fst item \<in> set (map fst ks)" unfolding k by auto
    then show "snd item \<noteq> 0 \<longrightarrow> dict_get ks (fst item) \<noteq> None"
      by (simp add: dict_get_def map_of_eq_None_iff)
  qed
  show ?thesis
    using acc pr getAverageSalary_map [OF d' p] by (simp add: getKey_def)
qed

subsection \<open>The example vacancies\<close>

lemma moscow_facts:
  "\<not> isl (line_vacancy ''Analyst'' example_header moscow_line)"
  "dic moscow_2007 ''year'' = Some (PyInt 2007)"
  "dic moscow_2007 ''area_name'' = Some (PyStr ''Moscow'')"
  "salaryRub (salary moscow_2007) = 150"
  "is_needed moscow_2007 = PyInt 0"
  by code_simp+

lemma kazan_facts:
  "\<not> isl (line_vacancy ''Analyst'' example_header kazan_line)"
  "dic kazan_2008 ''year'' = Some (PyInt 2008)"
  "dic kazan_2008 ''area_name'' = Some (PyStr ''Kazan'')"
  "salaryRub (salary kazan_2008) = 8985"
  "is_needed kazan_2008 = PyInt 1"
  by code_simp+

lemma example_vacancies:
  "csv_filter ''Analyst'' example_header [moscow_line, kazan_line] =
     Inr ([moscow_2007, kazan_2008], [kazan_2008])"
proof -
  have m: "line_vacancy ''Analyst'' example_header moscow_line = Inr moscow_2007"
    using moscow_facts(1) by (cases "line_vacancy ''Analyst'' example_header moscow_line")
      (simp_all add: moscow_2007_def)
  have k: "line_vacancy ''Analyst'' example_header kazan_line = Inr kazan_2008"
    using kazan_facts(1) by (cases "line_vacancy ''Analyst'' example_header kazan_line")
      (simp_all add: kazan_2008_def)
  show ?thesis by (simp add: csv_filter_def m k moscow_facts kazan_facts)
qed

lemma example_years: "getYears [moscow_2007, kazan_2008] = Inr [PyInt 2007, PyInt 2008]"
  by (simp add: getYears_def moscow_facts kazan_facts py_sort_def)

subsection \<open>Zero fill\<close>

text \<open>
  C2. Let \<^verbatim>\<open>allYears\<close> be the years of the full list of vacancies, and group a part of
  that list by year, not in area mode. Every year of the full list that no vacancy of the
  part has, and so is no key of the part's accumulated count dictionary, is a key of the
  returned count dictionary with count 0 and of the returned average dictionary with
  average 0. The grouping returns.
\<close>

theorem year_zero_fill:
  assumes "getYears filterVacancies = Inr allYears"
    and "set needed \<subseteq> set filterVacancies"
    and "w \<in> set filterVacancies" and "dic w ''year'' = Some y"
    and "\<forall>v\<in>set needed. dic v ''year'' \<noteq> Some y"
  shows "\<exists>keySum keyCount avg cnt.
           accumulate needed ''year'' [] [] = Inr (keySum, keyCount)
         \<and> dict_get keyCount y = None
         \<and> getKey allYears needed ''year'' False = Inr (avg, cnt)
         \<and> dict_get cnt y = Some 0 \<and> dict_get avg y = Some 0"
proof -
  have "\<forall>v\<in>set needed. dic v ''year'' \<noteq> None"
    using assms(1,2) getYears_present by blast
  then obtain ks kc where acc: "accumulate needed ''year'' [] [] = Inr (ks, kc)"
    using accumulate_returns by blast
  have occ: "occurrences needed ''year'' y = 0"
    using assms(5) by (simp add: occurrences_def)
  have none: "map_of kc y = None" using accumulate_count_empty [OF acc, of y] occ by simp
  have iny: "y \<in> set allYears" using getYears_set [OF assms(1)] assms(3,4) by auto
  have cnt: "map_of (updateKeys allYears kc) y = Some 0"
    using none iny by (simp add: map_of_updateKeys)
  have avg: "map_of (map (\<lambda>item. (fst item,
                 if snd item = 0 then 0
                 else \<lfloor>the (dict_get (updateKeys allYears ks) (fst item)) / real_of_int (snd item)\<rfloor>))
             (updateKeys allYears kc)) y = Some 0"
    by (simp add: map_of_map_items cnt)
  show ?thesis
    using acc none cnt avg getKey_year [OF acc, of allYears]
    by (simp add: dict_get_def)
qed

theorem year_zero_fill_witness:
  "getYears [moscow_2007, kazan_2008] = Inr [PyInt 2007, PyInt 2008]
   \<and> dic moscow_2007 ''year'' = Some (PyInt 2007)
   \<and> dic kazan_2008 ''year'' = Some (PyInt 2008)
   \<and> (\<exists>keySum keyCount avg cnt.
           accumulate [kazan_2008] ''year'' [] [] = Inr (keySum, keyCount)
         \<and> dict_get keyCount (PyInt 2007) = None
         \<and> getKey [PyInt 2007, PyInt 2008] [kazan_2008] ''year'' False = Inr (avg, cnt)
         \<and> dict_get cnt (PyInt 2007) = Some 0 \<and> dict_get avg (PyInt 2007) = Some 0)"
proof -
  have h2: "set [kazan_2008] \<subseteq> set [moscow_2007, kazan_2008]" by simp
  have h3: "moscow_2007 \<in> set [moscow_2007, kazan_2008]" by simp
  have h5: "\<forall>v\<in>set [kazan_2008]. dic v ''year'' \<noteq> Some (PyInt 2007)"
    by (simp add: kazan_facts)
  show ?thesis
    using year_zero_fill [OF example_years h2 h3 moscow_facts(2) h5]
          example_years moscow_facts(2) kazan_facts(2)
    by simp
qed

subsection \<open>Pruning\<close>

text \<open>
  C3. In area mode, with every vacancy having the grouping key, the grouping returns; a
  key whose number of vacancies divided by the number of all vacancies given is at most
  0.01 is a key of neither returned dictionary (it is dropped from the counts, and the
  averages are computed for the keys of the counts); a key with a greater share keeps
  its count; and the result is the same for any list of years of the data set.
\<close>

theorem area_pruning:
  assumes "\<forall>v\<in>set vacancies. dic v key_str \<noteq> None"
  shows "\<exists>avg cnt. getKey allYears vacancies key_str True = Inr (avg, cnt)
         \<and> dict_keys avg = dict_keys cnt
         \<and> (\<forall>k. real (occurrences vacancies key_str k) / real (length vacancies) \<le> 1 / 100
                \<longrightarrow> k \<notin> set (dict_keys cnt) \<and> k \<notin> set (dict_keys avg))
         \<and> (\<forall>k. 1 / 100 < real (occurrences vacancies key_str k) / real (length vacancies)
                \<longrightarrow> dict_get cnt k = Some (int (occurrences vacancies key_str k)))
         \<and> (\<forall>otherYears. getKey otherYears vacancies key_str True = Inr (avg, cnt))"
proof -
  obtain ks kc where acc: "accumulate vacancies key_str [] [] = Inr (ks, kc)"
    using assms accumulate_returns by blast
  let ?P = "\<lambda>item. real_of_int (snd item) / real (length vacancies) > 1 / 100"
  let ?cnt = "filter ?P kc"
  let ?avg = "map (\<lambda>item. (fst item,
                 if snd item = 0 then 0
                 else \<lfloor>the (dict_get ks (fst item)) / real_of_int (snd item)\<rfloor>)) ?cnt"
  have g: "getKey ys vacancies key_str True = Inr (?avg, ?cnt)" for ys
    using getKey_area [OF acc] .
  have keys: "dict_keys ?avg = dict_keys ?cnt" by (simp add: dict_keys_def comp_def)
  have d: "distinct (map fst kc)" using accumulate_distinct [OF acc] by simp
  have cntk: "map_of kc k = (if occurrences vacancies key_str k = 0 then None
                             else Some (int (occurrences vacancies key_str k)))" for k
    using accumulate_count_empty [OF acc] .
  have drop: "k \<notin> set (dict_keys ?cnt)"
    if le: "real (occurrences vacancies key_str k) / real (length vacancies) \<le> 1 / 100" for k
  proof
    assume "k \<in> set (dict_keys ?cnt)"
    then obtain c where c: "(k, c) \<in> set kc" "?P (k, c)" by (auto simp: dict_keys_def)
    then have "map_of kc k = Some c" using d by simp
    then have "c = int (occurrences vacancies key_str k)" using cntk [of k] by (auto split: if_splits)
    then show False using c(2) le by simp
  qed
  have keep: "dict_get ?cnt k = Some (int (occurrences vacancies key_str k))"
    if gt: "1 / 100 < real (occurrences vacancies key_str k) / real (length vacancies)" for k
  proof -
    have "occurrences vacancies key_str k \<noteq> 0"
    proof
      assume "occurrences vacancies key_str k = 0"
      then show False using gt by simp
    qed
    then have "map_of kc k = Some (int (occurrences vacancies key_str k))" using cntk [of k] by simp
    then have "(k, int (occurrences vacancies key_str k)) \<in> set kc" by (rule map_of_SomeD)
    then have "(k, int (occurrences vacancies key_str k)) \<in> set ?cnt" using gt by simp
    moreover have "distinct (map fst ?cnt)" using d by (rule distinct_map_filter)
    ultimately show ?thesis by (simp add: dict_get_def)
  qed
  show ?thesis
    using g keys drop keep by (intro exI [of _ ?avg] exI [of _ ?cnt]) (simp only: simp_thms; blast)
qed

theorem area_pruning_witness:
  "occurrences (replicate 100 moscow_2007 @ [kazan_2008]) ''area_name'' (PyStr ''Kazan'') = 1
   \<and> length (replicate 100 moscow_2007 @ [kazan_2008]) = 101
   \<and> (\<exists>avg cnt.
        getKey [] (replicate 100 moscow_2007 @ [kazan_2008]) ''area_name'' True = Inr (avg, cnt)
      \<and> PyStr ''Kazan'' \<notin> set (dict_keys cnt) \<and> PyStr ''Kazan'' \<notin> set (dict_keys avg)
      \<and> dict_get cnt (PyStr ''Moscow'') = Some 100)"
proof -
  let ?vs = "replicate 100 moscow_2007 @ [kazan_2008]"
  have h: "\<forall>v\<in>set ?vs. dic v ''area_name'' \<noteq> None"
    by (auto simp: moscow_facts kazan_facts)
  have ok: "occurrences ?vs ''area_name'' (PyStr ''Kazan'') = 1"
    by (simp add: occurrences_def moscow_facts kazan_facts)
  have om: "occurrences ?vs ''area_name'' (PyStr ''Moscow'') = 100"
    by (simp add: occurrences_def moscow_facts kazan_facts)
  have len: "length ?vs = 101" by simp
  from area_pruning [OF h, of "[]"] obtain avg cnt where
    g: "getKey [] ?vs ''area_name'' True = Inr (avg, cnt)"
    and dr: "\<forall>k. real (occurrences ?vs ''area_name'' k) / real (length ?vs) \<le> 1 / 100
                \<longrightarrow> k \<notin> set (dict_keys cnt) \<and> k \<notin> set (dict_keys avg)"
    and kp: "\<forall>k. 1 / 100 < real (occurrences ?vs ''area_name'' k) / real (length ?vs)
                \<longrightarrow> dict_get cnt k = Some (int (occurrences ?vs ''area_name'' k))"
    by blast
  have k1: "PyStr ''Kazan'' \<notin> set (dict_keys cnt) \<and> PyStr ''Kazan'' \<notin> set (dict_keys avg)"
    using dr [rule_format, of "PyStr ''Kazan''"] unfolding ok len by simp
  have k2: "dict_get cnt (PyStr ''Moscow'') = Some 100"
    using kp [rule_format, of "PyStr ''Moscow''"] unfolding om len by simp
  show ?thesis using ok len g k1 k2 by blast
qed

subsection \<open>The order of the years\<close>

text \<open>
  C7. The year dictionaries keep the order in which the loop and then the zero fill
  inserted the years, which need not be ascending. The example file has its two
  vacancies in the order of their years, 2007 and 2008, and only the second is of the
  profession asked for: the dictionaries of all vacancies have the years 2007, 2008, the
  dictionaries of the profession have them as 2008, 2007. With the two lines exchanged,
  the dictionaries of all vacancies have the years as 2008, 2007 too.
\<close>

theorem year_order_not_ascending:
  "\<not> isl (DataSet_init ''Analyst'' example_file)
   \<and> dict_keys (yearSalary (projr (DataSet_init ''Analyst'' example_file))) = [PyInt 2007, PyInt 2008]
   \<and> dict_keys (year_to_count (projr (DataSet_init ''Analyst'' example_file))) = [PyInt 2007, PyInt 2008]
   \<and> yearSalary_needed (projr (DataSet_init ''Analyst'' example_file))
       = [(PyInt 2008, 8985), (PyInt 2007, 0)]
   \<and> yearCount (projr (DataSet_init ''Analyst'' example_file))
       = [(PyInt 2008, 1), (PyInt 2007, 0)]
   \<and> \<not> isl (DataSet_init ''Analyst'' reversed_file)
   \<and> yearSalary (projr (DataSet_init ''Analyst'' reversed_file))
       = [(PyInt 2008, 8985), (PyInt 2007, 150)]
   \<and> year_to_count (projr (DataSet_init ''Analyst'' reversed_file))
       = [(PyInt 2008, 1), (PyInt 2007, 1)]"
  by code_simp

end
